theory Spec2Isabelle
  imports Main
begin

section \<open>The Meraki dashboard backend (meraki.py)\<close>

text \<open>
  The program is a Flask application with one aggregation endpoint,
  \<^verbatim>\<open>/api/meraki-data\<close>. It issues up to four HTTP GET requests against the
  Meraki API (organizations, networks of the first organization, devices and clients
  of the first network), tallies the devices by model, and answers with one JSON
  object. The embedding keeps the handler's control flow as it is written and makes
  its effects explicit: every function returns its value together with the list of
  events (requests sent, lines printed) it caused, in the order they happen.
\<close>

subsection \<open>Data model\<close>

text \<open>
  The entities of the upstream API, with the fields the program reads. The program
  reads \<^verbatim>\<open>id\<close> and \<^verbatim>\<open>name\<close> of an organization and of a network by
  subscript, so they are fields that are always there; it reads \<^verbatim>\<open>name\<close>,
  \<^verbatim>\<open>status\<close> and \<^verbatim>\<open>model\<close> of a device through \<^verbatim>\<open>.get\<close> with a default,
  so each of them may be absent (\<open>None\<close>). Client records are never inspected:
  their type is a parameter \<open>'c\<close>.
\<close>

record organization =
  org_id :: string
  org_name :: string

record network =
  net_id :: string
  net_name :: string

record device =
  dev_name :: "string option"
  dev_status :: "string option"
  dev_model :: "string option"

text \<open>
  A request as \<^verbatim>\<open>requests.get(url, headers=..., params=...)\<close> sends it, and a
  response with its status code and its body as \<^verbatim>\<open>response.json()\<close> parses it
  (\<open>None\<close> when the body is not JSON).
\<close>

record request =
  url :: string
  headers :: "(string \<times> string) list"
  params :: "(string \<times> int) list"

record 'a response =
  status_code :: int
  parsed :: "'a option"

text \<open>
  The exceptions of \<^verbatim>\<open>requests.exceptions\<close>; all of them are subclasses of
  \<^verbatim>\<open>RequestException\<close>, the class that every \<^verbatim>\<open>except\<close> clause of the
  program catches.
\<close>

datatype request_exception =
  ConnectionError | Timeout | TooManyRedirects | HTTPError int | JSONDecodeError

text \<open>
  The upstream API: what \<^verbatim>\<open>requests.get\<close> does with a request to each of the four
  endpoints. It either raises (\<open>Inl\<close>, a transport failure) or returns a response.
\<close>

record 'c meraki_api =
  list_organizations :: "request \<Rightarrow> request_exception + organization list response"
  list_networks :: "request \<Rightarrow> request_exception + network list response"
  list_devices :: "request \<Rightarrow> request_exception + device list response"
  list_clients :: "request \<Rightarrow> request_exception + 'c list response"

text \<open>
  What a call does besides returning: it sends a request, or prints a line. The line
  of an \<^verbatim>\<open>except\<close> clause is \<^verbatim>\<open>f"<prefix>{e}"\<close>; the event keeps the prefix
  and the exception, whose text the library chooses.
\<close>

datatype event = Sent request | Printed string request_exception

text \<open>
  The two exceptions that a subscript \<^verbatim>\<open>xs[0]\<close> can raise, and the response of
  the endpoint: \<^verbatim>\<open>{"error": ...}\<close>, the dashboard object, or Flask's answer to
  an exception that nothing catches. A response is the pair of body and status code,
  as the handler returns it.
\<close>

datatype py_error = TypeError | IndexError

record 'c dashboard_data =
  organizationName :: string
  networkName :: string
  deviceCount :: int
  clientCount :: int
  deviceTypes :: "string list"
  deviceTypeCounts :: "int list"
  devices :: "device list option"
  clients :: "'c list option"

datatype 'c body =
  Json_error string | Json_dashboard "'c dashboard_data" | Unhandled_exception py_error

type_synonym 'c flask_response = "'c body \<times> int"

subsection \<open>Python values\<close>

text \<open>
  A fetched value is a list or Python's \<^verbatim>\<open>None\<close>. \<^verbatim>\<open>not x\<close> holds for
  \<^verbatim>\<open>None\<close> and for the empty list (and for the empty string).
\<close>

fun truthy :: "'a list option \<Rightarrow> bool" where
  "truthy None = False"
| "truthy (Some xs) = (xs \<noteq> [])"

text \<open>\<^verbatim>\<open>xs[0]\<close>.\<close>

fun subscript0 :: "'a list option \<Rightarrow> py_error + 'a" where
  "subscript0 None = Inl TypeError"
| "subscript0 (Some []) = Inl IndexError"
| "subscript0 (Some (x # xs)) = Inr x"

text \<open>\<^verbatim>\<open>device.get(key, default)\<close> on a field that may be absent.\<close>

fun get :: "'a option \<Rightarrow> 'a \<Rightarrow> 'a" where
  "get None dflt = dflt"
| "get (Some v) dflt = v"

text \<open>
  A Python \<^verbatim>\<open>dict\<close> keeps its keys in insertion order: an association list
  with one entry for each key. \<^verbatim>\<open>d.get(k, default)\<close>, \<^verbatim>\<open>d[k] = v\<close> (which
  keeps the place of a key that is there and appends a new one),
  \<^verbatim>\<open>list(d.keys())\<close> and \<^verbatim>\<open>list(d.values())\<close>.
\<close>

type_synonym ('k, 'v) dict = "('k \<times> 'v) list"

fun dict_get :: "('k, 'v) dict \<Rightarrow> 'k \<Rightarrow> 'v \<Rightarrow> 'v" where
  "dict_get [] k dflt = dflt"
| "dict_get ((k', v') # d) k dflt = (if k' = k then v' else dict_get d k dflt)"

fun dict_set :: "('k, 'v) dict \<Rightarrow> 'k \<Rightarrow> 'v \<Rightarrow> ('k, 'v) dict" where
  "dict_set [] k v = [(k, v)]"
| "dict_set ((k', v') # d) k v = (if k' = k then (k', v) # d else (k', v') # dict_set d k v)"

definition keys :: "('k, 'v) dict \<Rightarrow> 'k list" where
  "keys d = map fst d"

definition values_of :: "('k, 'v) dict \<Rightarrow> 'v list" where
  "values_of d = map snd d"

text \<open>\<^verbatim>\<open>try: ... except RequestException\<close>: the steps of a \<^verbatim>\<open>try\<close> block in sequence.\<close>

definition and_then :: "'e + 'a \<Rightarrow> ('a \<Rightarrow> 'e + 'b) \<Rightarrow> 'e + 'b" where
  "and_then m f = (case m of Inl e \<Rightarrow> Inl e | Inr x \<Rightarrow> f x)"

subsection \<open>Startup configuration (lines 15 to 26)\<close>

text \<open>
  \<^verbatim>\<open>MERAKI_API_KEY = os.getenv("MERAKI_API_KEY")\<close>, replaced by a placeholder
  (with a printed warning) when \<^verbatim>\<open>not MERAKI_API_KEY\<close>: the variable is not set,
  or set to the empty string. The argument is what \<^verbatim>\<open>os.getenv\<close> returns (after
  \<^verbatim>\<open>load_dotenv()\<close>); the result is the key and the lines printed. The headers
  are built from the key once; the client operations take the key as an argument
  where the program reads the global \<^verbatim>\<open>HEADERS\<close>.
\<close>

definition MERAKI_API_KEY :: "string option \<Rightarrow> string \<times> string list" where
  "MERAKI_API_KEY getenv =
     (case getenv of
        None \<Rightarrow>
          (''YOUR_MERAKI_API_KEY'',
           [''WARNING: MERAKI_API_KEY environment variable not set. Please set it to your Meraki API key.''])
      | Some key \<Rightarrow>
          (if key = [] then
             (''YOUR_MERAKI_API_KEY'',
              [''WARNING: MERAKI_API_KEY environment variable not set. Please set it to your Meraki API key.''])
           else (key, [])))"

definition MERAKI_API_BASE_URL :: string where
  "MERAKI_API_BASE_URL = ''https://api.meraki.com/api/v1''"

definition HEADERS :: "string \<Rightarrow> (string \<times> string) list" where
  "HEADERS api_key =
     [(''X-Cisco-Meraki-API-Key'', api_key), (''Content-Type'', ''application/json'')]"

subsection \<open>The API client (lines 30 to 72)\<close>

text \<open>
  \<^verbatim>\<open>response.raise_for_status()\<close> raises \<^verbatim>\<open>HTTPError\<close> for a status from 400 to
  599; \<^verbatim>\<open>response.json()\<close> raises the library's \<^verbatim>\<open>JSONDecodeError\<close> (a
  \<^verbatim>\<open>RequestException\<close> as well) when the body is not JSON. Each operation sends
  one request; what it returns is the parsed body, or \<^verbatim>\<open>None\<close> after printing
  the exception that its \<^verbatim>\<open>except\<close> clause caught.
\<close>

definition raise_for_status :: "'a response \<Rightarrow> request_exception + unit" where
  "raise_for_status r =
     (if 400 \<le> status_code r \<and> status_code r < 600 then Inl (HTTPError (status_code r))
      else Inr ())"

definition json :: "'a response \<Rightarrow> request_exception + 'a" where
  "json r = (case parsed r of None \<Rightarrow> Inl JSONDecodeError | Some b \<Rightarrow> Inr b)"

definition get_organizations ::
  "string \<Rightarrow> 'c meraki_api \<Rightarrow> organization list option \<times> event list" where
  "get_organizations api_key api =
     (let request = \<lparr>url = MERAKI_API_BASE_URL @ ''/organizations'',
                      headers = HEADERS api_key, params = []\<rparr> in
      case and_then (list_organizations api request) (\<lambda>response.
           and_then (raise_for_status response) (\<lambda>_.
           json response)) of
        Inr result \<Rightarrow> (Some result, [Sent request])
      | Inl e \<Rightarrow> (None, [Sent request, Printed ''Error fetching organizations: '' e]))"

definition get_networks ::
  "string \<Rightarrow> 'c meraki_api \<Rightarrow> string \<Rightarrow> network list option \<times> event list" where
  "get_networks api_key api organization_id =
     (let request = \<lparr>url = MERAKI_API_BASE_URL @ ''/organizations/'' @ organization_id @ ''/networks'',
                      headers = HEADERS api_key, params = []\<rparr> in
      case and_then (list_networks api request) (\<lambda>response.
           and_then (raise_for_status response) (\<lambda>_.
           json response)) of
        Inr result \<Rightarrow> (Some result, [Sent request])
      | Inl e \<Rightarrow>
          (None, [Sent request,
                  Printed (''Error fetching networks for org '' @ organization_id @ '': '') e]))"

definition get_network_devices ::
  "string \<Rightarrow> 'c meraki_api \<Rightarrow> string \<Rightarrow> device list option \<times> event list" where
  "get_network_devices api_key api network_id =
     (let request = \<lparr>url = MERAKI_API_BASE_URL @ ''/networks/'' @ network_id @ ''/devices'',
                      headers = HEADERS api_key, params = []\<rparr> in
      case and_then (list_devices api request) (\<lambda>response.
           and_then (raise_for_status response) (\<lambda>_.
           json response)) of
        Inr result \<Rightarrow> (Some result, [Sent request])
      | Inl e \<Rightarrow>
          (None, [Sent request,
                  Printed (''Error fetching devices for network '' @ network_id @ '': '') e]))"

definition get_network_clients ::
  "string \<Rightarrow> 'c meraki_api \<Rightarrow> string \<Rightarrow> int \<Rightarrow> 'c list option \<times> event list" where
  "get_network_clients api_key api network_id timespan =
     (let request = \<lparr>url = MERAKI_API_BASE_URL @ ''/networks/'' @ network_id @ ''/clients'',
                      headers = HEADERS api_key, params = [(''timespan'', timespan)]\<rparr> in
      case and_then (list_clients api request) (\<lambda>response.
           and_then (raise_for_status response) (\<lambda>_.
           json response)) of
        Inr result \<Rightarrow> (Some result, [Sent request])
      | Inl e \<Rightarrow>
          (None, [Sent request,
                  Printed (''Error fetching clients for network '' @ network_id @ '': '') e]))"

subsection \<open>The aggregation endpoint (lines 82 to 134)\<close>

text \<open>
  The loop of lines 119 to 121, over the devices that are left:
  \<^verbatim>\<open>device_type = device.get('model', 'Unknown')\<close> and
  \<^verbatim>\<open>device_type_counts[device_type] = device_type_counts.get(device_type, 0) + 1\<close>.
\<close>

definition device_type :: "device \<Rightarrow> string" where
  "device_type device = get (dev_model device) ''Unknown''"

fun count_device_types :: "device list \<Rightarrow> (string, int) dict \<Rightarrow> (string, int) dict" where
  "count_device_types [] device_type_counts = device_type_counts"
| "count_device_types (device # rest) device_type_counts =
     count_device_types rest
       (dict_set device_type_counts (device_type device)
          (dict_get device_type_counts (device_type device) 0 + 1))"

text \<open>
  The handler, statement by statement. Each call adds its events to those before it.
  \<^verbatim>\<open>x if devices else y\<close> takes \<open>x\<close> when \<open>devices\<close> is a non-empty list
  (\<open>Some (d # ds)\<close>) and \<open>y\<close> when it is \<^verbatim>\<open>None\<close> or empty. A bare
  \<^verbatim>\<open>jsonify(dashboard_data)\<close> is sent with status 200.
\<close>

definition get_meraki_data :: "string \<Rightarrow> 'c meraki_api \<Rightarrow> 'c flask_response \<times> event list" where
  "get_meraki_data api_key api =
     (let (organizations, ev1) = get_organizations api_key api in
      if \<not> truthy organizations then
        ((Json_error ''Could not fetch organizations. Check API key and network connectivity.'', 500),
         ev1)
      else if \<not> truthy organizations then
        ((Json_error ''No Meraki organizations found.'', 404), ev1)
      else
        (case subscript0 organizations of
           Inl e \<Rightarrow> ((Unhandled_exception e, 500), ev1)
         | Inr organization \<Rightarrow>
            (let organization_id = org_id organization;
                 organization_name = org_name organization;
                 (networks, ev2) = get_networks api_key api organization_id in
             if \<not> truthy networks then
               ((Json_error (''No networks found for organization '' @ organization_name @ ''.''), 404),
                ev1 @ ev2)
             else
               (case subscript0 networks of
                  Inl e \<Rightarrow> ((Unhandled_exception e, 500), ev1 @ ev2)
                | Inr network \<Rightarrow>
                   (let network_id = net_id network;
                        network_name = net_name network;
                        (devices, ev3) = get_network_devices api_key api network_id;
                        (clients, ev4) = get_network_clients api_key api network_id 86400;
                        device_names =
                          (case devices of
                             Some (d # ds) \<Rightarrow> map (\<lambda>device. get (dev_name device) ''N/A'') (d # ds)
                           | _ \<Rightarrow> []);
                        device_statuses =
                          (case devices of
                             Some (d # ds) \<Rightarrow> map (\<lambda>device. get (dev_status device) ''N/A'') (d # ds)
                           | _ \<Rightarrow> []);
                        client_count =
                          (case clients of Some (c # cs) \<Rightarrow> int (length (c # cs)) | _ \<Rightarrow> 0);
                        device_type_counts =
                          (case devices of
                             Some (d # ds) \<Rightarrow> count_device_types (d # ds) []
                           | _ \<Rightarrow> []);
                        dashboard_data =
                          \<lparr>organizationName = organization_name,
                           networkName = network_name,
                           deviceCount =
                             (case devices of Some (d # ds) \<Rightarrow> int (length (d # ds)) | _ \<Rightarrow> 0),
                           clientCount = client_count,
                           deviceTypes = keys device_type_counts,
                           deviceTypeCounts = values_of device_type_counts,
                           devices = devices,
                           clients = clients\<rparr>
                    in ((Json_dashboard dashboard_data, 200), ev1 @ ev2 @ ev3 @ ev4))))))"

subsection \<open>Notions of the specification\<close>

text \<open>
  The distinct values of a list in first-seen order: walk the list from the left and
  append each value that has not been seen before.
\<close>

definition first_seen :: "'a list \<Rightarrow> 'a list" where
  "first_seen xs = foldl (\<lambda>seen x. if x \<in> set seen then seen else seen @ [x]) [] xs"

text \<open>An unavailable result, treated as an empty list.\<close>

fun as_list :: "'a list option \<Rightarrow> 'a list" where
  "as_list None = []"
| "as_list (Some xs) = xs"

text \<open>The requests among the events of a call, in the order they were sent.\<close>

fun requests_sent :: "event list \<Rightarrow> request list" where
  "requests_sent [] = []"
| "requests_sent (Sent r # evs) = r # requests_sent evs"
| "requests_sent (Printed prefix e # evs) = requests_sent evs"

text \<open>A message mentions a word: the word occurs in it as a contiguous piece.\<close>

fun mentions :: "string \<Rightarrow> string \<Rightarrow> bool" where
  "mentions [] w = (w = [])"
| "mentions (c # cs) w = (take (length w) (c # cs) = w \<or> mentions cs w)"

text \<open>
  The contract of an API client operation, for the outcome of its request and the
  value it returns: a transport failure and a status from 400 to 599 give the
  unavailable sentinel \<open>None\<close>, and a status from 200 to 299 gives the parsed body.
\<close>

definition unavailable_contract :: "request_exception + 'a response \<Rightarrow> 'a option \<Rightarrow> bool" where
  "unavailable_contract outcome result =
     (case outcome of
        Inl e \<Rightarrow> result = None
      | Inr r \<Rightarrow>
          (if 400 \<le> status_code r \<and> status_code r \<le> 599 then result = None
           else if 200 \<le> status_code r \<and> status_code r \<le> 299 then
             (case parsed r of Some b \<Rightarrow> result = Some b | None \<Rightarrow> True)
           else True))"

text \<open>
  The raw \<open>devices\<close> and \<open>clients\<close> fields of a response are lists: never the
  unavailable sentinel, which JSON renders as \<open>null\<close>.
\<close>

definition raw_fields_are_lists :: "'c flask_response \<Rightarrow> bool" where
  "raw_fields_are_lists resp =
     (case fst resp of
        Json_dashboard dd \<Rightarrow> devices dd \<noteq> None \<and> clients dd \<noteq> None
      | _ \<Rightarrow> True)"

subsection \<open>A sample upstream\<close>

text \<open>
  An upstream with one organization (id 549236) and one network (id L_1): each
  endpoint gives the stated outcome at its own URL and status 404 anywhere else.
\<close>

definition at_path ::
  "string \<Rightarrow> request_exception + 'a response \<Rightarrow> request \<Rightarrow> request_exception + 'a response" where
  "at_path path outcome r =
     (if url r = MERAKI_API_BASE_URL @ path then outcome
      else Inr \<lparr>status_code = 404, parsed = None\<rparr>)"

definition ok :: "'a \<Rightarrow> request_exception + 'a response" where
  "ok b = Inr \<lparr>status_code = 200, parsed = Some b\<rparr>"

definition failing :: "int \<Rightarrow> request_exception + 'a response" where
  "failing st = Inr \<lparr>status_code = st, parsed = None\<rparr>"

definition sample_api ::
  "request_exception + organization list response \<Rightarrow> request_exception + network list response \<Rightarrow>
   request_exception + device list response \<Rightarrow> request_exception + string list response \<Rightarrow>
   string meraki_api" where
  "sample_api orgs nets devs cls =
     \<lparr>list_organizations = at_path ''/organizations'' orgs,
      list_networks = at_path ''/organizations/549236/networks'' nets,
      list_devices = at_path ''/networks/L_1/devices'' devs,
      list_clients = at_path ''/networks/L_1/clients'' cls\<rparr>"

definition sample_orgs :: "organization list" where
  "sample_orgs = [\<lparr>org_id = ''549236'', org_name = ''Acme''\<rparr>,
                  \<lparr>org_id = ''549237'', org_name = ''Other''\<rparr>]"

definition sample_nets :: "network list" where
  "sample_nets = [\<lparr>net_id = ''L_1'', net_name = ''HQ''\<rparr>]"

definition sample_devices :: "device list" where
  "sample_devices =
     [\<lparr>dev_name = Some ''AP 1'', dev_status = Some ''online'', dev_model = Some ''MR33''\<rparr>,
      \<lparr>dev_name = None, dev_status = None, dev_model = Some ''MR33''\<rparr>,
      \<lparr>dev_name = Some ''Switch'', dev_status = Some ''offline'', dev_model = Some ''MS220''\<rparr>]"

definition sample_clients :: "string list" where
  "sample_clients = [''c1'', ''c2'', ''c3'', ''c4'', ''c5'']"

section \<open>Properties\<close>

subsection \<open>The dictionary and the tally\<close>

lemma truthy_iff: "truthy v \<longleftrightarrow> (\<exists>x xs. v = Some (x # xs))"
  by (cases v rule: truthy.cases) (auto simp: neq_Nil_conv)

lemma keys_dict_set: "keys (dict_set d k v) = (if k \<in> set (keys d) then keys d else keys d @ [k])"
  by (induction d) (force simp: keys_def)+

lemma dict_get_dict_set: "dict_get (dict_set d k v) k' z = (if k' = k then v else dict_get d k' z)"
  by (induction d) auto

lemma keys_count_device_types:
  "keys (count_device_types ds d) =
     foldl (\<lambda>seen x. if x \<in> set seen then seen else seen @ [x]) (keys d) (map device_type ds)"
  by (induction ds arbitrary: d) (simp_all add: keys_dict_set)

lemma dict_get_count_device_types:
  "dict_get (count_device_types ds d) k 0 = dict_get d k 0 + int (count_list (map device_type ds) k)"
  by (induction ds arbitrary: d) (simp_all add: dict_get_dict_set)

lemma distinct_keys_dict_set: "distinct (keys d) \<Longrightarrow> distinct (keys (dict_set d k v))"
  by (simp add: keys_dict_set)

lemma distinct_keys_count_device_types:
  "distinct (keys d) \<Longrightarrow> distinct (keys (count_device_types ds d))"
  by (induction ds arbitrary: d) (simp_all add: distinct_keys_dict_set)

lemma values_of_distinct:
  "distinct (keys d) \<Longrightarrow> values_of d = map (\<lambda>k. dict_get d k z) (keys d)"
  by (induction d) (force simp: keys_def values_of_def)+

lemma sum_values_dict_set:
  "sum_list (values_of (dict_set d k (dict_get d k 0 + 1))) = sum_list (values_of d) + (1::int)"
  by (induction d) (auto simp: values_of_def)

lemma sum_values_count_device_types:
  "sum_list (values_of (count_device_types ds d)) = sum_list (values_of d) + int (length ds)"
  by (induction ds arbitrary: d) (simp_all add: sum_values_dict_set)

lemma length_values_keys: "length (values_of d) = length (keys d)"
  by (simp add: keys_def values_of_def)

lemma count_list_map_filter: "count_list (map f xs) y = length (filter (\<lambda>x. f x = y) xs)"
  by (induction xs) auto

lemma first_seen_keys:
  "keys (count_device_types ds []) = first_seen (map device_type ds)"
  using keys_count_device_types [of ds "[]"] by (simp add: first_seen_def keys_def)

lemma values_count_device_types:
  "values_of (count_device_types ds []) =
     map (\<lambda>t. int (count_list (map device_type ds) t)) (first_seen (map device_type ds))"
proof -
  have "distinct (keys (count_device_types ds []))"
    by (rule distinct_keys_count_device_types) (simp add: keys_def)
  then have "values_of (count_device_types ds []) =
      map (\<lambda>k. dict_get (count_device_types ds []) k 0) (keys (count_device_types ds []))"
    by (rule values_of_distinct)
  then show ?thesis
    by (simp add: dict_get_count_device_types first_seen_keys)
qed

lemma tally_keys:
  "keys (case dv of Some (d # ds) \<Rightarrow> count_device_types (d # ds) [] | _ \<Rightarrow> []) =
     first_seen (map device_type (as_list dv))"
proof (cases dv)
  case None
  then show ?thesis by (simp add: keys_def first_seen_def)
next
  case (Some ds)
  then show ?thesis
    by (cases ds) (simp_all add: keys_def first_seen_def del: count_device_types.simps
        add: first_seen_keys [unfolded keys_def first_seen_def])
qed

lemma tally_values:
  "values_of (case dv of Some (d # ds) \<Rightarrow> count_device_types (d # ds) [] | _ \<Rightarrow> []) =
     map (\<lambda>t. int (count_list (map device_type (as_list dv)) t))
       (first_seen (map device_type (as_list dv)))"
proof (cases dv)
  case None
  then show ?thesis by (simp add: values_of_def first_seen_def)
next
  case (Some ds)
  show ?thesis
  proof (cases ds)
    case Nil
    with Some show ?thesis by (simp add: values_of_def first_seen_def)
  next
    case (Cons d ds')
    with Some show ?thesis
      using values_count_device_types [of "d # ds'"] by simp
  qed
qed

lemma tally_length:
  "(case dv of Some (d # ds) \<Rightarrow> int (length (d # ds)) | _ \<Rightarrow> 0) = int (length (as_list dv))"
  by (cases dv rule: subscript0.cases) simp_all

lemma handler_500:
  assumes "\<not> truthy (fst (get_organizations k api))"
  shows "get_meraki_data k api =
    ((Json_error ''Could not fetch organizations. Check API key and network connectivity.'', 500),
     snd (get_organizations k api))"
  using assms by (simp add: get_meraki_data_def case_prod_unfold)

lemma handler_404:
  assumes "fst (get_organizations k api) = Some (org # orgs)"
    and "\<not> truthy (fst (get_networks k api (org_id org)))"
  shows "get_meraki_data k api =
    ((Json_error (''No networks found for organization '' @ org_name org @ ''.''), 404),
     snd (get_organizations k api) @ snd (get_networks k api (org_id org)))"
  using assms by (simp add: get_meraki_data_def Let_def case_prod_unfold)

lemma handler_200:
  assumes "fst (get_organizations k api) = Some (org # orgs)"
    and "fst (get_networks k api (org_id org)) = Some (net # nets)"
  shows "get_meraki_data k api =
    ((Json_dashboard
        \<lparr>organizationName = org_name org,
         networkName = net_name net,
         deviceCount = int (length (as_list (fst (get_network_devices k api (net_id net))))),
         clientCount = int (length (as_list (fst (get_network_clients k api (net_id net) 86400)))),
         deviceTypes =
           first_seen (map device_type (as_list (fst (get_network_devices k api (net_id net))))),
         deviceTypeCounts =
           map (\<lambda>t. int (count_list
                  (map device_type (as_list (fst (get_network_devices k api (net_id net))))) t))
             (first_seen (map device_type (as_list (fst (get_network_devices k api (net_id net)))))),
         devices = fst (get_network_devices k api (net_id net)),
         clients = fst (get_network_clients k api (net_id net) 86400)\<rparr>, 200),
     snd (get_organizations k api) @ snd (get_networks k api (org_id org)) @
     snd (get_network_devices k api (net_id net)) @
     snd (get_network_clients k api (net_id net) 86400))"
  using assms
  by (simp add: get_meraki_data_def Let_def case_prod_unfold tally_keys tally_values tally_length)

lemma handler_cases:
  obtains
    (no_orgs) "\<not> truthy (fst (get_organizations k api))"
  | (no_nets) org orgs where "fst (get_organizations k api) = Some (org # orgs)"
      and "\<not> truthy (fst (get_networks k api (org_id org)))"
  | (success) org orgs net nets where "fst (get_organizations k api) = Some (org # orgs)"
      and "fst (get_networks k api (org_id org)) = Some (net # nets)"
  by (metis truthy_iff)

lemma foldl_first_seen_distinct:
  "distinct acc \<Longrightarrow>
   distinct (foldl (\<lambda>seen x. if x \<in> set seen then seen else seen @ [x]) acc xs)"
  by (induction xs arbitrary: acc) simp_all

lemma foldl_first_seen_set:
  "set (foldl (\<lambda>seen x. if x \<in> set seen then seen else seen @ [x]) acc xs) = set acc \<union> set xs"
  by (induction xs arbitrary: acc) auto

lemma distinct_first_seen: "distinct (first_seen xs)"
  by (simp add: first_seen_def foldl_first_seen_distinct)

lemma set_first_seen: "set (first_seen xs) = set xs"
  by (simp add: first_seen_def foldl_first_seen_set)

lemma first_seen_snoc:
  "first_seen (xs @ [x]) = (if x \<in> set xs then first_seen xs else first_seen xs @ [x])"
  using set_first_seen [of xs] by (simp add: first_seen_def)


subsection \<open>Counts, messages and requests\<close>

lemma sum_counts_first_seen:
  "sum_list (map (\<lambda>t. int (count_list (map device_type ds) t)) (first_seen (map device_type ds))) =
     int (length ds)"
  using sum_values_count_device_types [of ds "[]"]
  unfolding values_count_device_types by (simp add: values_of_def)

lemma mentions_append: "mentions (pre @ w @ post) w"
proof (induction pre)
  case Nil
  show ?case by (cases "w @ post") (auto simp: append_eq_Cons_conv)
next
  case (Cons c pre)
  then show ?case by simp
qed

lemma not_truthy_iff: "\<not> truthy v \<longleftrightarrow> v = None \<or> v = Some []"
  by (cases v rule: truthy.cases) auto

lemma requests_sent_append: "requests_sent (evs @ evs') = requests_sent evs @ requests_sent evs'"
  by (induction evs rule: requests_sent.induct) simp_all

lemma sent_get_organizations:
  "requests_sent (snd (get_organizations k api)) =
     [\<lparr>url = MERAKI_API_BASE_URL @ ''/organizations'', headers = HEADERS k, params = []\<rparr>]"
  by (simp add: get_organizations_def Let_def split: sum.splits)

lemma sent_get_networks:
  "requests_sent (snd (get_networks k api oid)) =
     [\<lparr>url = MERAKI_API_BASE_URL @ ''/organizations/'' @ oid @ ''/networks'',
       headers = HEADERS k, params = []\<rparr>]"
  by (simp add: get_networks_def Let_def split: sum.splits)

lemma sent_get_network_devices:
  "requests_sent (snd (get_network_devices k api nid)) =
     [\<lparr>url = MERAKI_API_BASE_URL @ ''/networks/'' @ nid @ ''/devices'',
       headers = HEADERS k, params = []\<rparr>]"
  by (simp add: get_network_devices_def Let_def split: sum.splits)

lemma sent_get_network_clients:
  "requests_sent (snd (get_network_clients k api nid t)) =
     [\<lparr>url = MERAKI_API_BASE_URL @ ''/networks/'' @ nid @ ''/clients'',
       headers = HEADERS k, params = [(''timespan'', t)]\<rparr>]"
  by (simp add: get_network_clients_def Let_def split: sum.splits)

subsection \<open>Evaluating the client and the sample upstream\<close>

lemma device_type_case: "device_type d = (case dev_model d of None \<Rightarrow> ''Unknown'' | Some m \<Rightarrow> m)"
  by (cases "dev_model d") (simp_all add: device_type_def)

lemmas sample_defs =
  sample_api_def at_path_def ok_def failing_def sample_orgs_def sample_nets_def
  sample_devices_def sample_clients_def MERAKI_API_BASE_URL_def

lemmas client_defs =
  get_organizations_def get_networks_def get_network_devices_def get_network_clients_def
  and_then_def raise_for_status_def json_def Let_def

subsection \<open>Device types and their counts\<close>

text \<open>
  Claim C1. For every devices list that the devices fetch returns, the endpoint's
  \<open>deviceTypes\<close> are the distinct model values of the devices (\<open>''Unknown''\<close>
  where a device has no model) in first-seen order, and \<open>deviceTypeCounts\<close> are
  the parallel counts: the number of occurrences of each of these models. For
  devices with the models MR33, MR33, MS220 the result is \<open>[''MR33'', ''MS220'']\<close>
  and \<open>[2, 1]\<close>.
\<close>

theorem device_types_first_seen:
  assumes "fst (get_organizations k api) = Some (org # orgs)"
    and "fst (get_networks k api (org_id org)) = Some (net # nets)"
    and "fst (get_network_devices k api (net_id net)) = Some ds"
  shows "\<exists>dd. fst (get_meraki_data k api) = (Json_dashboard dd, 200) \<and>
      (let models = map (\<lambda>d. case dev_model d of None \<Rightarrow> ''Unknown'' | Some m \<Rightarrow> m) ds in
         deviceTypes dd = first_seen models \<and>
         deviceTypeCounts dd = map (\<lambda>t. int (count_list models t)) (deviceTypes dd) \<and>
         (map dev_model ds = [Some ''MR33'', Some ''MR33'', Some ''MS220''] \<longrightarrow>
            deviceTypes dd = [''MR33'', ''MS220''] \<and> deviceTypeCounts dd = [2, 1]))"
proof -
  have models: "map (\<lambda>d. case dev_model d of None \<Rightarrow> ''Unknown'' | Some m \<Rightarrow> m) ds = map device_type ds"
    by (simp add: device_type_case)
  have example: "first_seen [''MR33'', ''MR33'', ''MS220''] = [''MR33'', ''MS220'']"
    by (simp add: first_seen_def)
  have "map dev_model ds = [Some ''MR33'', Some ''MR33'', Some ''MS220''] \<Longrightarrow>
      map device_type ds = [''MR33'', ''MR33'', ''MS220'']"
    by (auto simp: device_type_case map_eq_Cons_conv)
  then show ?thesis
    unfolding models Let_def
    by (auto simp: handler_200 [OF assms(1,2)] assms(3) example)
qed

theorem device_types_first_seen_witness:
  "\<exists>dd. fst (get_meraki_data ''key''
           (sample_api (ok sample_orgs) (ok sample_nets) (ok sample_devices) (ok sample_clients))) =
         (Json_dashboard dd, 200) \<and>
       deviceTypes dd = [''MR33'', ''MS220''] \<and> deviceTypeCounts dd = [2, 1]"
proof -
  let ?api = "sample_api (ok sample_orgs) (ok sample_nets) (ok sample_devices) (ok sample_clients)"
  have orgs: "fst (get_organizations ''key'' ?api) =
      Some (\<lparr>org_id = ''549236'', org_name = ''Acme''\<rparr> # [\<lparr>org_id = ''549237'', org_name = ''Other''\<rparr>])"
    by (simp add: client_defs sample_defs)
  have nets: "fst (get_networks ''key'' ?api (org_id \<lparr>org_id = ''549236'', org_name = ''Acme''\<rparr>)) =
      Some (\<lparr>net_id = ''L_1'', net_name = ''HQ''\<rparr> # [])"
    by (simp add: client_defs sample_defs)
  have devs: "fst (get_network_devices ''key'' ?api (net_id \<lparr>net_id = ''L_1'', net_name = ''HQ''\<rparr>)) =
      Some sample_devices"
    by (simp add: client_defs sample_defs)
  have "map dev_model sample_devices = [Some ''MR33'', Some ''MR33'', Some ''MS220'']"
    by (simp add: sample_devices_def)
  with device_types_first_seen [OF orgs nets devs] show ?thesis
    by (auto simp: Let_def)
qed

text \<open>
  Claim C2. For every devices fetch result \<open>dv\<close> used to build a success response
  (an unavailable result counts as the empty list), the response has as many
  \<open>deviceTypes\<close> as \<open>deviceTypeCounts\<close>, \<open>deviceTypeCounts[i]\<close> is the number of
  devices whose model (\<open>''Unknown''\<close> when absent) equals \<open>deviceTypes[i]\<close>, and
  the counts add up to \<open>deviceCount\<close>, the number of devices.
\<close>

theorem device_type_counts_invariant:
  assumes "fst (get_organizations k api) = Some (org # orgs)"
    and "fst (get_networks k api (org_id org)) = Some (net # nets)"
    and "fst (get_network_devices k api (net_id net)) = dv"
  shows "\<exists>dd. fst (get_meraki_data k api) = (Json_dashboard dd, 200) \<and>
      devices dd = dv \<and>
      length (deviceTypes dd) = length (deviceTypeCounts dd) \<and>
      (\<forall>i < length (deviceTypes dd).
         deviceTypeCounts dd ! i =
           int (length (filter
             (\<lambda>d. (case dev_model d of None \<Rightarrow> ''Unknown'' | Some m \<Rightarrow> m) = deviceTypes dd ! i)
             (as_list dv)))) \<and>
      sum_list (deviceTypeCounts dd) = deviceCount dd \<and>
      deviceCount dd = int (length (as_list dv))"
proof -
  let ?models = "map device_type (as_list dv)"
  have total: "sum_list (map (\<lambda>t. int (count_list ?models t)) (first_seen ?models)) =
      int (length (as_list dv))"
    by (rule sum_counts_first_seen)
  show ?thesis
    unfolding handler_200 [OF assms(1,2)] assms(3)
    by (simp add: total) (simp add: count_list_map_filter device_type_case)
qed

theorem device_type_counts_invariant_witness:
  "\<exists>dd. fst (get_meraki_data ''key''
           (sample_api (ok sample_orgs) (ok sample_nets) (ok sample_devices) (ok sample_clients))) =
         (Json_dashboard dd, 200) \<and>
       devices dd = Some sample_devices \<and>
       length (deviceTypes dd) = length (deviceTypeCounts dd) \<and>
       sum_list (deviceTypeCounts dd) = 3 \<and> deviceCount dd = 3"
proof -
  let ?api = "sample_api (ok sample_orgs) (ok sample_nets) (ok sample_devices) (ok sample_clients)"
  have orgs: "fst (get_organizations ''key'' ?api) =
      Some (\<lparr>org_id = ''549236'', org_name = ''Acme''\<rparr> # [\<lparr>org_id = ''549237'', org_name = ''Other''\<rparr>])"
    by (simp add: client_defs sample_defs)
  have nets: "fst (get_networks ''key'' ?api (org_id \<lparr>org_id = ''549236'', org_name = ''Acme''\<rparr>)) =
      Some (\<lparr>net_id = ''L_1'', net_name = ''HQ''\<rparr> # [])"
    by (simp add: client_defs sample_defs)
  have devs: "fst (get_network_devices ''key'' ?api (net_id \<lparr>net_id = ''L_1'', net_name = ''HQ''\<rparr>)) =
      Some sample_devices"
    by (simp add: client_defs sample_defs)
  have "int (length (as_list (Some sample_devices))) = 3"
    by (simp add: sample_devices_def)
  with device_type_counts_invariant [OF orgs nets devs] show ?thesis
    by auto
qed

subsection \<open>The error responses\<close>

text \<open>
  Claim C3. If the organizations fetch returns the unavailable sentinel or an empty
  list, the endpoint answers with status 500 and a body \<open>{"error": msg}\<close> whose
  message mentions the API key and connectivity, and it makes no further call: the
  events of the handler are those of the organizations fetch alone, and the only
  request sent is the one for the organizations.
\<close>

theorem no_organizations_500:
  assumes "fst (get_organizations k api) = None \<or> fst (get_organizations k api) = Some []"
  shows "\<exists>msg. fst (get_meraki_data k api) = (Json_error msg, 500) \<and>
      mentions msg ''API key'' \<and> mentions msg ''connectivity'' \<and>
      snd (get_meraki_data k api) = snd (get_organizations k api) \<and>
      requests_sent (snd (get_meraki_data k api)) =
        [\<lparr>url = MERAKI_API_BASE_URL @ ''/organizations'', headers = HEADERS k, params = []\<rparr>]"
proof -
  from assms have "\<not> truthy (fst (get_organizations k api))"
    by (simp add: not_truthy_iff)
  then have handler: "get_meraki_data k api =
      ((Json_error ''Could not fetch organizations. Check API key and network connectivity.'', 500),
       snd (get_organizations k api))"
    by (rule handler_500)
  have "mentions (''Could not fetch organizations. Check '' @ ''API key'' @ '' and network connectivity.'')
      ''API key''"
    by (rule mentions_append)
  moreover have "mentions
      (''Could not fetch organizations. Check API key and network '' @ ''connectivity'' @ ''.'')
      ''connectivity''"
    by (rule mentions_append)
  ultimately show ?thesis
    unfolding handler by (simp add: sent_get_organizations)
qed

theorem no_organizations_500_witness:
  "(\<exists>msg. fst (get_meraki_data ''key''
            (sample_api (ok []) (ok sample_nets) (ok sample_devices) (ok sample_clients))) =
          (Json_error msg, 500) \<and>
        requests_sent (snd (get_meraki_data ''key''
            (sample_api (ok []) (ok sample_nets) (ok sample_devices) (ok sample_clients)))) =
          [\<lparr>url = ''https://api.meraki.com/api/v1/organizations'',
            headers = [(''X-Cisco-Meraki-API-Key'', ''key''), (''Content-Type'', ''application/json'')],
            params = []\<rparr>]) \<and>
   (\<exists>msg. fst (get_meraki_data ''key''
            (sample_api (failing 401) (ok sample_nets) (ok sample_devices) (ok sample_clients))) =
          (Json_error msg, 500))"
proof -
  have empty: "fst (get_organizations ''key''
      (sample_api (ok []) (ok sample_nets) (ok sample_devices) (ok sample_clients))) = Some []"
    by (simp add: client_defs sample_defs)
  have down: "fst (get_organizations ''key''
      (sample_api (failing 401) (ok sample_nets) (ok sample_devices) (ok sample_clients))) = None"
    by (simp add: client_defs sample_defs)
  show ?thesis
    using no_organizations_500 [OF disjI2, OF empty] no_organizations_500 [OF disjI1, OF down]
    by (auto simp: MERAKI_API_BASE_URL_def HEADERS_def)
qed

text \<open>
  Claim C4. If the organizations fetch gives a non-empty list and the networks fetch
  for its first organization returns the unavailable sentinel or an empty list, the
  endpoint answers with status 404 and a body \<open>{"error": msg}\<close> whose message
  names that organization.
\<close>

theorem no_networks_404:
  assumes "fst (get_organizations k api) = Some (org # orgs)"
    and "fst (get_networks k api (org_id org)) = None \<or>
         fst (get_networks k api (org_id org)) = Some []"
  shows "fst (get_meraki_data k api) =
      (Json_error (''No networks found for organization '' @ org_name org @ ''.''), 404) \<and>
    mentions (''No networks found for organization '' @ org_name org @ ''.'') (org_name org)"
proof -
  from assms(2) have "\<not> truthy (fst (get_networks k api (org_id org)))"
    by (simp add: not_truthy_iff)
  with assms(1) show ?thesis
    by (simp only: handler_404 fst_conv mentions_append simp_thms)
qed

theorem no_networks_404_witness:
  "fst (get_meraki_data ''key''
     (sample_api (ok sample_orgs) (ok []) (ok sample_devices) (ok sample_clients))) =
     (Json_error ''No networks found for organization Acme.'', 404) \<and>
   fst (get_meraki_data ''key''
     (sample_api (ok sample_orgs) (Inl Timeout) (ok sample_devices) (ok sample_clients))) =
     (Json_error ''No networks found for organization Acme.'', 404)"
proof -
  let ?org = "\<lparr>org_id = ''549236'', org_name = ''Acme''\<rparr>"
  let ?orgs = "[\<lparr>org_id = ''549237'', org_name = ''Other''\<rparr>]"
  have orgs: "fst (get_organizations ''key''
      (sample_api (ok sample_orgs) nets (ok sample_devices) (ok sample_clients))) = Some (?org # ?orgs)"
    for nets
    by (simp add: client_defs sample_defs)
  have empty: "fst (get_networks ''key''
      (sample_api (ok sample_orgs) (ok []) (ok sample_devices) (ok sample_clients)) (org_id ?org)) = Some []"
    by (simp add: client_defs sample_defs)
  have down: "fst (get_networks ''key''
      (sample_api (ok sample_orgs) (Inl Timeout) (ok sample_devices) (ok sample_clients)) (org_id ?org)) = None"
    by (simp add: client_defs sample_defs)
  show ?thesis
    using no_networks_404 [OF orgs disjI2, OF empty] no_networks_404 [OF orgs disjI1, OF down]
    by simp
qed

text \<open>
  Claim C5. If organization and network resolution succeed and the devices fetch
  returns the unavailable sentinel, the endpoint still answers with status 200, with
  \<open>deviceCount = 0\<close>, \<open>deviceTypes = []\<close>, and \<open>clientCount\<close> the length of the
  fetched clients list (0 when the clients are unavailable as well).
\<close>

theorem devices_unavailable_still_200:
  assumes "fst (get_organizations k api) = Some (org # orgs)"
    and "fst (get_networks k api (org_id org)) = Some (net # nets)"
    and "fst (get_network_devices k api (net_id net)) = None"
  shows "\<exists>dd. fst (get_meraki_data k api) = (Json_dashboard dd, 200) \<and>
      deviceCount dd = 0 \<and> deviceTypes dd = [] \<and>
      clientCount dd =
        (case fst (get_network_clients k api (net_id net) 86400) of
           None \<Rightarrow> 0 | Some cl \<Rightarrow> int (length cl))"
  unfolding handler_200 [OF assms(1,2)] assms(3)
  by (simp add: first_seen_def split: option.splits)

theorem devices_unavailable_still_200_witness:
  "(\<exists>dd. fst (get_meraki_data ''key''
           (sample_api (ok sample_orgs) (ok sample_nets) (failing 503) (ok sample_clients))) =
         (Json_dashboard dd, 200) \<and>
       deviceCount dd = 0 \<and> deviceTypes dd = [] \<and> clientCount dd = 5) \<and>
   (\<exists>dd. fst (get_meraki_data ''key''
           (sample_api (ok sample_orgs) (ok sample_nets) (failing 503) (Inl ConnectionError))) =
         (Json_dashboard dd, 200) \<and>
       deviceCount dd = 0 \<and> deviceTypes dd = [] \<and> clientCount dd = 0)"
proof -
  let ?org = "\<lparr>org_id = ''549236'', org_name = ''Acme''\<rparr>"
  let ?orgs = "[\<lparr>org_id = ''549237'', org_name = ''Other''\<rparr>]"
  let ?net = "\<lparr>net_id = ''L_1'', net_name = ''HQ''\<rparr>"
  have orgs: "fst (get_organizations ''key''
      (sample_api (ok sample_orgs) (ok sample_nets) (failing 503) cls)) = Some (?org # ?orgs)" for cls
    by (simp add: client_defs sample_defs)
  have nets: "fst (get_networks ''key''
      (sample_api (ok sample_orgs) (ok sample_nets) (failing 503) cls) (org_id ?org)) = Some (?net # [])"
    for cls
    by (simp add: client_defs sample_defs)
  have devs: "fst (get_network_devices ''key''
      (sample_api (ok sample_orgs) (ok sample_nets) (failing 503) cls) (net_id ?net)) = None" for cls
    by (simp add: client_defs sample_defs)
  have five: "fst (get_network_clients ''key''
      (sample_api (ok sample_orgs) (ok sample_nets) (failing 503) (ok sample_clients)) ''L_1'' 86400) =
      Some sample_clients"
    by (simp add: client_defs sample_defs)
  have none: "fst (get_network_clients ''key''
      (sample_api (ok sample_orgs) (ok sample_nets) (failing 503) (Inl ConnectionError)) ''L_1'' 86400) =
      None"
    by (simp add: client_defs sample_defs)
  have len: "int (length sample_clients) = 5"
    by (simp add: sample_clients_def)
  show ?thesis
    using devices_unavailable_still_200 [OF orgs nets devs, of "ok sample_clients"]
      devices_unavailable_still_200 [OF orgs nets devs, of "Inl ConnectionError"]
    by (simp add: five none len)
qed

subsection \<open>The API client and its requests\<close>

lemma handler_request_shape:
  assumes "r \<in> set (requests_sent (snd (get_meraki_data k api)))"
  shows "headers r = HEADERS k \<and> (params r = [] \<or> params r = [(''timespan'', 86400)])"
proof (cases k api rule: handler_cases)
  case no_orgs
  with assms show ?thesis
    by (auto simp: handler_500 sent_get_organizations)
next
  case (no_nets org orgs)
  with assms show ?thesis
    by (auto simp: handler_404 requests_sent_append sent_get_organizations sent_get_networks)
next
  case (success org orgs net nets)
  with assms show ?thesis
    by (auto simp: handler_200 requests_sent_append sent_get_organizations sent_get_networks
        sent_get_network_devices sent_get_network_clients)
qed

text \<open>
  Claim C6. Each of the four API client operations keeps the contract of the client
  for the request it sends: a transport failure (\<open>requests.get\<close> raises) and a
  response with a status from 400 to 599 give the unavailable sentinel \<open>None\<close> as
  the returned value (the operation returns, nothing is raised), and a response with
  a status from 200 to 299 gives the parsed JSON body.
\<close>

theorem client_operations_contract:
  "unavailable_contract
     (list_organizations api
        \<lparr>url = MERAKI_API_BASE_URL @ ''/organizations'', headers = HEADERS k, params = []\<rparr>)
     (fst (get_organizations k api)) \<and>
   unavailable_contract
     (list_networks api
        \<lparr>url = MERAKI_API_BASE_URL @ ''/organizations/'' @ organization_id @ ''/networks'',
         headers = HEADERS k, params = []\<rparr>)
     (fst (get_networks k api organization_id)) \<and>
   unavailable_contract
     (list_devices api
        \<lparr>url = MERAKI_API_BASE_URL @ ''/networks/'' @ network_id @ ''/devices'',
         headers = HEADERS k, params = []\<rparr>)
     (fst (get_network_devices k api network_id)) \<and>
   unavailable_contract
     (list_clients api
        \<lparr>url = MERAKI_API_BASE_URL @ ''/networks/'' @ network_id @ ''/clients'',
         headers = HEADERS k, params = [(''timespan'', timespan)]\<rparr>)
     (fst (get_network_clients k api network_id timespan))"
proof (intro conjI)
  show "unavailable_contract
     (list_organizations api
        \<lparr>url = MERAKI_API_BASE_URL @ ''/organizations'', headers = HEADERS k, params = []\<rparr>)
     (fst (get_organizations k api))"
    by (simp add: unavailable_contract_def client_defs split: sum.splits option.splits)
  show "unavailable_contract
     (list_networks api
        \<lparr>url = MERAKI_API_BASE_URL @ ''/organizations/'' @ organization_id @ ''/networks'',
         headers = HEADERS k, params = []\<rparr>)
     (fst (get_networks k api organization_id))"
    by (simp add: unavailable_contract_def client_defs split: sum.splits option.splits)
  show "unavailable_contract
     (list_devices api
        \<lparr>url = MERAKI_API_BASE_URL @ ''/networks/'' @ network_id @ ''/devices'',
         headers = HEADERS k, params = []\<rparr>)
     (fst (get_network_devices k api network_id))"
    by (simp add: unavailable_contract_def client_defs split: sum.splits option.splits)
  show "unavailable_contract
     (list_clients api
        \<lparr>url = MERAKI_API_BASE_URL @ ''/networks/'' @ network_id @ ''/clients'',
         headers = HEADERS k, params = [(''timespan'', timespan)]\<rparr>)
     (fst (get_network_clients k api network_id timespan))"
    by (simp add: unavailable_contract_def client_defs split: sum.splits option.splits)
qed

theorem client_operations_contract_witness:
  "fst (get_organizations ''key''
     (sample_api (Inl Timeout) (failing 503) (ok sample_devices) (failing 404))) = None \<and>
   fst (get_networks ''key''
     (sample_api (Inl Timeout) (failing 503) (ok sample_devices) (failing 404)) ''549236'') = None \<and>
   fst (get_network_devices ''key''
     (sample_api (Inl Timeout) (failing 503) (ok sample_devices) (failing 404)) ''L_1'') =
     Some sample_devices \<and>
   fst (get_network_clients ''key''
     (sample_api (Inl Timeout) (failing 503) (ok sample_devices) (failing 404)) ''L_1'' 3600) = None"
  using client_operations_contract
    [of "sample_api (Inl Timeout) (failing 503) (ok sample_devices) (failing 404)"
      "''key''" "''549236''" "''L_1''" 3600]
  by (simp add: unavailable_contract_def sample_api_def at_path_def ok_def failing_def
      MERAKI_API_BASE_URL_def)

subsection \<open>Clients and the raw fields\<close>

text \<open>
  Claim C7. The handler asks for the clients of the last 24 hours: every timespan
  among the requests it sends is 86400, and when organization and network resolution
  succeed its last call is \<open>get_network_clients\<close> with \<open>timespan = 86400\<close>. For
  every clients list \<open>cl\<close> that this call returns, whatever the client records are
  (their type is arbitrary), the response's \<open>clientCount\<close> is the length of \<open>cl\<close>;
  for a list of five clients it is 5.
\<close>

theorem clients_timespan_and_count:
  "(\<forall>r \<in> set (requests_sent (snd (get_meraki_data k api))).
      \<forall>t. (''timespan'', t) \<in> set (params r) \<longrightarrow> t = 86400) \<and>
   (\<forall>org orgs net nets.
      fst (get_organizations k api) = Some (org # orgs) \<and>
      fst (get_networks k api (org_id org)) = Some (net # nets) \<longrightarrow>
      snd (get_meraki_data k api) =
        snd (get_organizations k api) @ snd (get_networks k api (org_id org)) @
        snd (get_network_devices k api (net_id net)) @
        snd (get_network_clients k api (net_id net) 86400) \<and>
      last (requests_sent (snd (get_meraki_data k api))) =
        \<lparr>url = MERAKI_API_BASE_URL @ ''/networks/'' @ net_id net @ ''/clients'',
         headers = HEADERS k, params = [(''timespan'', 86400)]\<rparr> \<and>
      (\<forall>cl. fst (get_network_clients k api (net_id net) 86400) = Some cl \<longrightarrow>
         (\<exists>dd. fst (get_meraki_data k api) = (Json_dashboard dd, 200) \<and>
            clients dd = Some cl \<and> clientCount dd = int (length cl))))"
proof (intro conjI ballI allI impI)
  fix r t
  assume "r \<in> set (requests_sent (snd (get_meraki_data k api)))"
    and "(''timespan'', t) \<in> set (params r)"
  with handler_request_shape [of r k api] show "t = 86400"
    by auto
next
  fix org orgs net nets
  assume "fst (get_organizations k api) = Some (org # orgs) \<and>
      fst (get_networks k api (org_id org)) = Some (net # nets)"
  then have ok: "fst (get_organizations k api) = Some (org # orgs)"
      "fst (get_networks k api (org_id org)) = Some (net # nets)"
    by simp_all
  show "snd (get_meraki_data k api) =
        snd (get_organizations k api) @ snd (get_networks k api (org_id org)) @
        snd (get_network_devices k api (net_id net)) @
        snd (get_network_clients k api (net_id net) 86400)"
    by (simp add: handler_200 [OF ok])
  show "last (requests_sent (snd (get_meraki_data k api))) =
        \<lparr>url = MERAKI_API_BASE_URL @ ''/networks/'' @ net_id net @ ''/clients'',
         headers = HEADERS k, params = [(''timespan'', 86400)]\<rparr>"
    by (simp add: handler_200 [OF ok] requests_sent_append sent_get_network_clients)
  fix cl
  assume "fst (get_network_clients k api (net_id net) 86400) = Some cl"
  then show "\<exists>dd. fst (get_meraki_data k api) = (Json_dashboard dd, 200) \<and>
            clients dd = Some cl \<and> clientCount dd = int (length cl)"
    by (simp add: handler_200 [OF ok])
qed

theorem clients_timespan_and_count_witness:
  "requests_sent (snd (get_meraki_data ''key''
      (sample_api (ok sample_orgs) (ok sample_nets) (ok sample_devices) (ok sample_clients)))) \<noteq> [] \<and>
   last (requests_sent (snd (get_meraki_data ''key''
      (sample_api (ok sample_orgs) (ok sample_nets) (ok sample_devices) (ok sample_clients))))) =
     \<lparr>url = ''https://api.meraki.com/api/v1/networks/L_1/clients'',
      headers = [(''X-Cisco-Meraki-API-Key'', ''key''), (''Content-Type'', ''application/json'')],
      params = [(''timespan'', 86400)]\<rparr> \<and>
   (\<exists>dd. fst (get_meraki_data ''key''
           (sample_api (ok sample_orgs) (ok sample_nets) (ok sample_devices) (ok sample_clients))) =
         (Json_dashboard dd, 200) \<and>
       clients dd = Some [''c1'', ''c2'', ''c3'', ''c4'', ''c5''] \<and> clientCount dd = 5)"
proof -
  let ?api = "sample_api (ok sample_orgs) (ok sample_nets) (ok sample_devices) (ok sample_clients)"
  let ?org = "\<lparr>org_id = ''549236'', org_name = ''Acme''\<rparr>"
  let ?orgs = "[\<lparr>org_id = ''549237'', org_name = ''Other''\<rparr>]"
  let ?net = "\<lparr>net_id = ''L_1'', net_name = ''HQ''\<rparr>"
  have orgs: "fst (get_organizations ''key'' ?api) = Some (?org # ?orgs)"
    by (simp add: client_defs sample_defs)
  have nets: "fst (get_networks ''key'' ?api (org_id ?org)) = Some (?net # [])"
    by (simp add: client_defs sample_defs)
  have cls: "fst (get_network_clients ''key'' ?api (net_id ?net) 86400) =
      Some [''c1'', ''c2'', ''c3'', ''c4'', ''c5'']"
    by (simp add: client_defs sample_defs)
  have sent: "requests_sent (snd (get_meraki_data ''key'' ?api)) \<noteq> []"
    by (simp add: handler_200 [OF orgs nets] requests_sent_append sent_get_organizations)
  from clients_timespan_and_count [of "''key''" ?api]
  have "last (requests_sent (snd (get_meraki_data ''key'' ?api))) =
        \<lparr>url = MERAKI_API_BASE_URL @ ''/networks/'' @ net_id ?net @ ''/clients'',
         headers = HEADERS ''key'', params = [(''timespan'', 86400)]\<rparr> \<and>
      (\<exists>dd. fst (get_meraki_data ''key'' ?api) = (Json_dashboard dd, 200) \<and>
            clients dd = Some [''c1'', ''c2'', ''c3'', ''c4'', ''c5''] \<and>
            clientCount dd = int (length [''c1'', ''c2'', ''c3'', ''c4'', ''c5'']))"
    using orgs nets cls by blast
  with sent show ?thesis
    by (simp add: MERAKI_API_BASE_URL_def HEADERS_def)
qed

text \<open>
  Claim C8 as stated: in a success response the raw \<open>devices\<close> and \<open>clients\<close>
  fields are lists, an unavailable fetch being turned into an empty list. It fails
  where the devices endpoint answers with status 503 and the clients request times
  out: the handler passes \<open>devices\<close> and \<open>clients\<close> on as they were fetched
  (line 130: "Raw device data"), so both fields are \<open>None\<close>, JSON \<open>null\<close>.
\<close>

theorem raw_fields_null_counterexample:
  "\<not> raw_fields_are_lists (fst (get_meraki_data ''key''
       (sample_api (ok sample_orgs) (ok sample_nets) (failing 503) (Inl Timeout))))"
proof -
  let ?api = "sample_api (ok sample_orgs) (ok sample_nets) (failing 503) (Inl Timeout)"
  let ?org = "\<lparr>org_id = ''549236'', org_name = ''Acme''\<rparr>"
  let ?orgs = "[\<lparr>org_id = ''549237'', org_name = ''Other''\<rparr>]"
  let ?net = "\<lparr>net_id = ''L_1'', net_name = ''HQ''\<rparr>"
  have orgs: "fst (get_organizations ''key'' ?api) = Some (?org # ?orgs)"
    by (simp add: client_defs sample_defs)
  have nets: "fst (get_networks ''key'' ?api (org_id ?org)) = Some (?net # [])"
    by (simp add: client_defs sample_defs)
  have devs: "fst (get_network_devices ''key'' ?api ''L_1'') = None"
    by (simp add: client_defs sample_defs)
  show ?thesis
    by (simp add: raw_fields_are_lists_def handler_200 [OF orgs nets] devs)
qed

text \<open>
  Claim C8, amended. When organization and network resolution succeed, the response
  has status 200 and its \<open>devices\<close> and \<open>clients\<close> fields are the raw results of
  the two fetches: the fetched list when the fetch succeeds, the unavailable sentinel
  when it does not. The unavailable result is treated as an empty list in the derived
  fields only: \<open>deviceCount\<close>, \<open>clientCount\<close>, \<open>deviceTypes\<close> and
  \<open>deviceTypeCounts\<close>.
\<close>

theorem raw_fetch_results_passed_through:
  assumes "fst (get_organizations k api) = Some (org # orgs)"
    and "fst (get_networks k api (org_id org)) = Some (net # nets)"
  shows "\<exists>dd. fst (get_meraki_data k api) = (Json_dashboard dd, 200) \<and>
      devices dd = fst (get_network_devices k api (net_id net)) \<and>
      clients dd = fst (get_network_clients k api (net_id net) 86400) \<and>
      deviceCount dd = int (length (as_list (devices dd))) \<and>
      clientCount dd = int (length (as_list (clients dd))) \<and>
      deviceTypes dd = first_seen (map device_type (as_list (devices dd))) \<and>
      deviceTypeCounts dd =
        map (\<lambda>t. int (count_list (map device_type (as_list (devices dd))) t)) (deviceTypes dd)"
  by (simp add: handler_200 [OF assms])

theorem raw_fetch_results_passed_through_witness:
  "\<exists>dd. fst (get_meraki_data ''key''
           (sample_api (ok sample_orgs) (ok sample_nets) (failing 503) (ok sample_clients))) =
         (Json_dashboard dd, 200) \<and>
       devices dd = None \<and> clients dd = Some sample_clients \<and>
       deviceCount dd = 0 \<and> clientCount dd = 5 \<and> deviceTypes dd = [] \<and> deviceTypeCounts dd = []"
proof -
  let ?api = "sample_api (ok sample_orgs) (ok sample_nets) (failing 503) (ok sample_clients)"
  let ?org = "\<lparr>org_id = ''549236'', org_name = ''Acme''\<rparr>"
  let ?orgs = "[\<lparr>org_id = ''549237'', org_name = ''Other''\<rparr>]"
  let ?net = "\<lparr>net_id = ''L_1'', net_name = ''HQ''\<rparr>"
  have orgs: "fst (get_organizations ''key'' ?api) = Some (?org # ?orgs)"
    by (simp add: client_defs sample_defs)
  have nets: "fst (get_networks ''key'' ?api (org_id ?org)) = Some (?net # [])"
    by (simp add: client_defs sample_defs)
  have devs: "fst (get_network_devices ''key'' ?api ''L_1'') = None"
    by (simp add: client_defs sample_defs)
  have cls: "fst (get_network_clients ''key'' ?api ''L_1'' 86400) = Some sample_clients"
    by (simp add: client_defs sample_defs)
  have len: "int (length sample_clients) = 5"
    by (simp add: sample_clients_def)
  have empty: "first_seen ([] :: string list) = []"
    by (simp add: first_seen_def)
  from raw_fetch_results_passed_through [OF orgs nets] show ?thesis
    by (auto simp: devs cls len empty)
qed

subsection \<open>The API key and the second organizations check\<close>

text \<open>
  Claim C9. If the environment variable \<open>MERAKI_API_KEY\<close> is absent or empty at
  startup, one warning line is printed and the placeholder \<open>''YOUR_MERAKI_API_KEY''\<close>
  becomes the API key: it is the value of the \<open>X-Cisco-Meraki-API-Key\<close> header in
  \<open>HEADERS\<close> and in every request that the handler sends.
\<close>

theorem placeholder_api_key:
  assumes "getenv = None \<or> getenv = Some ''''"
  shows "fst (MERAKI_API_KEY getenv) = ''YOUR_MERAKI_API_KEY'' \<and>
    (\<exists>line. snd (MERAKI_API_KEY getenv) = [line] \<and> mentions line ''WARNING'' \<and>
       mentions line ''MERAKI_API_KEY environment variable not set'') \<and>
    HEADERS (fst (MERAKI_API_KEY getenv)) =
      [(''X-Cisco-Meraki-API-Key'', ''YOUR_MERAKI_API_KEY''), (''Content-Type'', ''application/json'')] \<and>
    (\<forall>r \<in> set (requests_sent (snd (get_meraki_data (fst (MERAKI_API_KEY getenv)) api))).
       map_of (headers r) ''X-Cisco-Meraki-API-Key'' = Some ''YOUR_MERAKI_API_KEY'')"
proof -
  let ?line = "''WARNING: MERAKI_API_KEY environment variable not set. Please set it to your Meraki API key.''"
  from assms have key: "MERAKI_API_KEY getenv = (''YOUR_MERAKI_API_KEY'', [?line])"
    by (auto simp: MERAKI_API_KEY_def)
  have "mentions ([] @ ''WARNING'' @
      '': MERAKI_API_KEY environment variable not set. Please set it to your Meraki API key.'')
      ''WARNING''"
    by (rule mentions_append)
  then have warning: "mentions ?line ''WARNING''"
    by simp
  have "mentions (''WARNING: '' @ ''MERAKI_API_KEY environment variable not set'' @
      ''. Please set it to your Meraki API key.'')
      ''MERAKI_API_KEY environment variable not set''"
    by (rule mentions_append)
  then have not_set: "mentions ?line ''MERAKI_API_KEY environment variable not set''"
    by simp
  have "map_of (headers r) ''X-Cisco-Meraki-API-Key'' = Some ''YOUR_MERAKI_API_KEY''"
    if "r \<in> set (requests_sent (snd (get_meraki_data ''YOUR_MERAKI_API_KEY'' api)))" for r
    using handler_request_shape [OF that] by (simp add: HEADERS_def)
  with warning not_set show ?thesis
    unfolding key by (simp add: HEADERS_def)
qed

theorem placeholder_api_key_witness:
  "MERAKI_API_KEY None =
     (''YOUR_MERAKI_API_KEY'',
      [''WARNING: MERAKI_API_KEY environment variable not set. Please set it to your Meraki API key.'']) \<and>
   fst (MERAKI_API_KEY (Some '''')) = ''YOUR_MERAKI_API_KEY'' \<and>
   map headers (requests_sent (snd (get_meraki_data (fst (MERAKI_API_KEY None))
     (sample_api (ok sample_orgs) (ok []) (ok sample_devices) (ok sample_clients))))) =
     [[(''X-Cisco-Meraki-API-Key'', ''YOUR_MERAKI_API_KEY''), (''Content-Type'', ''application/json'')],
      [(''X-Cisco-Meraki-API-Key'', ''YOUR_MERAKI_API_KEY''), (''Content-Type'', ''application/json'')]]"
proof -
  let ?api = "sample_api (ok sample_orgs) (ok []) (ok sample_devices) (ok sample_clients)"
  let ?org = "\<lparr>org_id = ''549236'', org_name = ''Acme''\<rparr>"
  let ?orgs = "[\<lparr>org_id = ''549237'', org_name = ''Other''\<rparr>]"
  have none: "(None :: string option) = None \<or> None = Some ''''"
    by simp
  have empty: "Some '''' = None \<or> Some '''' = Some ''''"
    by simp
  have orgs: "fst (get_organizations ''YOUR_MERAKI_API_KEY'' ?api) = Some (?org # ?orgs)"
    by (simp add: client_defs sample_defs)
  have nets: "\<not> truthy (fst (get_networks ''YOUR_MERAKI_API_KEY'' ?api (org_id ?org)))"
    by (simp add: client_defs sample_defs)
  have sent: "map headers (requests_sent (snd (get_meraki_data ''YOUR_MERAKI_API_KEY'' ?api))) =
      [HEADERS ''YOUR_MERAKI_API_KEY'', HEADERS ''YOUR_MERAKI_API_KEY'']"
    by (simp add: handler_404 [OF orgs nets] requests_sent_append sent_get_organizations
        sent_get_networks)
  have line: "MERAKI_API_KEY None =
     (''YOUR_MERAKI_API_KEY'',
      [''WARNING: MERAKI_API_KEY environment variable not set. Please set it to your Meraki API key.''])"
    by (simp add: MERAKI_API_KEY_def)
  from placeholder_api_key [OF none, of ?api] placeholder_api_key [OF empty, of ?api]
  show ?thesis
    using sent line by (simp add: HEADERS_def)
qed

text \<open>
  Claim C10. The second organizations check of the handler (line 92) is unreachable:
  no result of the organizations fetch, and no upstream at all, makes the endpoint
  answer with the message \<open>''No Meraki organizations found.''\<close>. Every sentinel or
  empty result already leaves through the first check with status 500, so the answer
  to an empty organizations list is the answer to a failed fetch.
\<close>

theorem second_organizations_check_unreachable:
  "(\<forall>st. fst (get_meraki_data k api) \<noteq> (Json_error ''No Meraki organizations found.'', st)) \<and>
   (\<not> truthy (fst (get_organizations k api)) \<longrightarrow>
      fst (get_meraki_data k api) =
        (Json_error ''Could not fetch organizations. Check API key and network connectivity.'', 500)) \<and>
   (\<forall>k' api'. fst (get_organizations k api) = None \<and> fst (get_organizations k' api') = Some [] \<longrightarrow>
      fst (get_meraki_data k api) = fst (get_meraki_data k' api'))"
proof (intro conjI allI impI)
  fix st
  show "fst (get_meraki_data k api) \<noteq> (Json_error ''No Meraki organizations found.'', st)"
  proof (cases k api rule: handler_cases)
    case no_orgs
    then show ?thesis by (simp add: handler_500)
  next
    case (no_nets org orgs)
    then show ?thesis by (simp add: handler_404)
  next
    case (success org orgs net nets)
    then show ?thesis by (simp add: handler_200)
  qed
next
  assume "\<not> truthy (fst (get_organizations k api))"
  then show "fst (get_meraki_data k api) =
      (Json_error ''Could not fetch organizations. Check API key and network connectivity.'', 500)"
    by (simp add: handler_500)
next
  fix k' and api' :: "'a meraki_api"
  assume "fst (get_organizations k api) = None \<and> fst (get_organizations k' api') = Some []"
  then have "\<not> truthy (fst (get_organizations k api))" "\<not> truthy (fst (get_organizations k' api'))"
    by simp_all
  then show "fst (get_meraki_data k api) = fst (get_meraki_data k' api')"
    by (simp add: handler_500)
qed

theorem second_organizations_check_unreachable_witness:
  "fst (get_meraki_data ''key''
     (sample_api (Inl ConnectionError) (ok sample_nets) (ok sample_devices) (ok sample_clients))) =
     (Json_error ''Could not fetch organizations. Check API key and network connectivity.'', 500) \<and>
   fst (get_meraki_data ''key''
     (sample_api (ok []) (ok sample_nets) (ok sample_devices) (ok sample_clients))) =
   fst (get_meraki_data ''key''
     (sample_api (Inl ConnectionError) (ok sample_nets) (ok sample_devices) (ok sample_clients))) \<and>
   fst (get_meraki_data ''key''
     (sample_api (ok []) (ok sample_nets) (ok sample_devices) (ok sample_clients))) \<noteq>
     (Json_error ''No Meraki organizations found.'', 404)"
proof -
  let ?down = "sample_api (Inl ConnectionError) (ok sample_nets) (ok sample_devices) (ok sample_clients)"
  let ?empty = "sample_api (ok []) (ok sample_nets) (ok sample_devices) (ok sample_clients)"
  have down: "fst (get_organizations ''key'' ?down) = None"
    by (simp add: client_defs sample_defs)
  have empty: "fst (get_organizations ''key'' ?empty) = Some []"
    by (simp add: client_defs sample_defs)
  from down have falsy: "\<not> truthy (fst (get_organizations ''key'' ?down))"
    by simp
  from second_organizations_check_unreachable [of "''key''" ?down]
    second_organizations_check_unreachable [of "''key''" ?empty]
  show ?thesis
    using down empty falsy by metis
qed

end
